theory Spec2Isabelle
  imports Complex_Main "HOL-Library.Sublist" "HOL-Library.Multiset"
begin

section \<open>Stock dashboard (app.py): embedding\<close>

text \<open>
  The script is a composition of library calls (yfinance, pandas, requests,
  BeautifulSoup, streamlit).  The embedding keeps the script's own control flow
  and models each library call by the part of its documented behaviour that the
  script depends on.  What the outside world does (the provider's answer, the
  HTTP reply, the parsed page) is an explicit input.  Calls to streamlit are
  recorded, in order, as a list of page elements.  Floating-point numbers are
  idealised as reals with NaN and the two infinities: rounding to binary64 and
  the two-decimal formatting of the display are not modelled.
\<close>

subsection \<open>Exceptions\<close>

text \<open>
  The exception classes the script distinguishes.  \<open>RequestException\<close> stands
  for \<open>requests.exceptions.RequestException\<close> and its subclasses (connection
  errors, timeouts, \<open>HTTPError\<close>).  \<open>BaseException\<close> stands for the classes that
  do not derive from \<open>Exception\<close> (\<open>KeyboardInterrupt\<close>, \<open>SystemExit\<close>), which
  an \<open>except Exception\<close> clause does not catch.  Each carries its message.
\<close>

datatype py_exn =
    RequestException string
  | KeyError string
  | IndexError string
  | TypeError string
  | ValueError string
  | OtherException string
  | BaseException string

fun str_of :: "py_exn \<Rightarrow> string" where
  "str_of (RequestException m) = m"
| "str_of (KeyError m) = m"
| "str_of (IndexError m) = m"
| "str_of (TypeError m) = m"
| "str_of (ValueError m) = m"
| "str_of (OtherException m) = m"
| "str_of (BaseException m) = m"

fun is_Exception :: "py_exn \<Rightarrow> bool" where
  "is_Exception (BaseException m) = False"
| "is_Exception e = True"

fun is_RequestException :: "py_exn \<Rightarrow> bool" where
  "is_RequestException (RequestException m) = True"
| "is_RequestException e = False"

subsection \<open>Numbers\<close>

text \<open>A computed float: a real, or one of the three special values.\<close>

datatype float64 = Finite real | PosInf | NegInf | NotANumber

fun np_neg :: "float64 \<Rightarrow> float64" where
  "np_neg (Finite a) = Finite (- a)"
| "np_neg PosInf = NegInf"
| "np_neg NegInf = PosInf"
| "np_neg NotANumber = NotANumber"

fun np_add :: "float64 \<Rightarrow> float64 \<Rightarrow> float64" where
  "np_add (Finite a) (Finite b) = Finite (a + b)"
| "np_add NotANumber y = NotANumber"
| "np_add x NotANumber = NotANumber"
| "np_add PosInf NegInf = NotANumber"
| "np_add NegInf PosInf = NotANumber"
| "np_add PosInf y = PosInf"
| "np_add NegInf y = NegInf"
| "np_add (Finite a) y = y"

definition np_sub :: "float64 \<Rightarrow> float64 \<Rightarrow> float64" where
  "np_sub x y = np_add x (np_neg y)"

text \<open>The sign of an infinity times (or divided by) a finite number.\<close>

definition signed_inf :: "bool \<Rightarrow> float64" where
  "signed_inf positive = (if positive then PosInf else NegInf)"

fun np_mul :: "float64 \<Rightarrow> float64 \<Rightarrow> float64" where
  "np_mul (Finite a) (Finite b) = Finite (a * b)"
| "np_mul NotANumber y = NotANumber"
| "np_mul x NotANumber = NotANumber"
| "np_mul PosInf PosInf = PosInf"
| "np_mul NegInf NegInf = PosInf"
| "np_mul PosInf NegInf = NegInf"
| "np_mul NegInf PosInf = NegInf"
| "np_mul PosInf (Finite b) = (if b = 0 then NotANumber else signed_inf (0 < b))"
| "np_mul NegInf (Finite b) = (if b = 0 then NotANumber else signed_inf (b < 0))"
| "np_mul (Finite a) PosInf = (if a = 0 then NotANumber else signed_inf (0 < a))"
| "np_mul (Finite a) NegInf = (if a = 0 then NotANumber else signed_inf (a < 0))"

text \<open>
  Division of numpy scalars does not raise on a zero divisor: it gives an
  infinity, or NaN for \<open>0 / 0\<close> (with a warning, which is not an exception).
  The sign of a zero divisor is not modelled: zero counts as positive.
\<close>

fun np_div :: "float64 \<Rightarrow> float64 \<Rightarrow> float64" where
  "np_div (Finite a) (Finite b) =
     (if b = 0 then (if a = 0 then NotANumber else signed_inf (0 < a))
      else Finite (a / b))"
| "np_div NotANumber y = NotANumber"
| "np_div x NotANumber = NotANumber"
| "np_div (Finite a) y = Finite 0"
| "np_div x PosInf = NotANumber"
| "np_div x NegInf = NotANumber"
| "np_div PosInf (Finite b) = signed_inf (0 \<le> b)"
| "np_div NegInf (Finite b) = signed_inf (b < 0)"

subsection \<open>Data frames\<close>

text \<open>
  A cell of a frame: a number, the float NaN, the object \<open>None\<close>, text that
  spells a number (given by that number), or text that spells none.  Infinite
  cell values are not modelled.
\<close>

datatype cell = Num real | NaN | NoneObject | NumericText real | NonNumeric string

type_synonym date = int

type_synonym row = "date \<times> cell list"

text \<open>
  The column labels of the frame the provider returns: a plain index, or a
  multi-level index where every label is a tuple (first level, further levels).
\<close>

datatype column_index = Index "string list" | MultiIndex "(string \<times> string list) list"

text \<open>
  What \<open>yf.download\<close> returns: the column labels and the rows, each row an
  index value (the date) with one cell for each column.
\<close>

record provider_frame =
  raw_columns :: column_index
  raw_rows :: "row list"

text \<open>A frame whose column labels are plain strings (after line 98).\<close>

record dataframe =
  labels :: "string list"
  rows :: "row list"

fun column_count :: "column_index \<Rightarrow> nat" where
  "column_count (MultiIndex ts) = length ts"
| "column_count (Index ls) = length ls"

text \<open>\<open>DataFrame.empty\<close>: true when either axis has length zero.\<close>

definition provider_empty :: "provider_frame \<Rightarrow> bool" where
  "provider_empty d \<longleftrightarrow> raw_rows d = [] \<or> column_count (raw_columns d) = 0"

definition df_empty :: "dataframe \<Rightarrow> bool" where
  "df_empty d \<longleftrightarrow> rows d = [] \<or> labels d = []"

text \<open>\<open>pd.isna\<close> on a cell.\<close>

fun isna :: "cell \<Rightarrow> bool" where
  "isna NaN = True"
| "isna NoneObject = True"
| "isna c = False"

text \<open>\<open>pd.to_numeric(..., errors='coerce')\<close> on a cell.\<close>

fun to_numeric :: "cell \<Rightarrow> cell" where
  "to_numeric (Num r) = Num r"
| "to_numeric NaN = NaN"
| "to_numeric NoneObject = NaN"
| "to_numeric (NumericText r) = Num r"
| "to_numeric (NonNumeric s) = NaN"

fun is_float :: "cell \<Rightarrow> bool" where
  "is_float (Num r) = True"
| "is_float NaN = True"
| "is_float c = False"

fun is_text :: "cell \<Rightarrow> bool" where
  "is_text (NumericText r) = True"
| "is_text (NonNumeric s) = True"
| "is_text c = False"

text \<open>The cells of a row that stand under the label \<open>col\<close> (several when the
  label is duplicated).\<close>

fun cells_under :: "string \<Rightarrow> string list \<Rightarrow> cell list \<Rightarrow> cell list" where
  "cells_under col (l # ls) (c # cs) =
     (if l = col then c # cells_under col ls cs else cells_under col ls cs)"
| "cells_under col ls cs = []"

text \<open>The row with \<open>pd.to_numeric\<close> applied to the cell under \<open>col\<close>.\<close>

fun coerce_cells :: "string \<Rightarrow> string list \<Rightarrow> cell list \<Rightarrow> cell list" where
  "coerce_cells col (l # ls) (c # cs) =
     (if l = col then to_numeric c else c) # coerce_cells col ls cs"
| "coerce_cells col ls cs = cs"

text \<open>The value of a row in a column whose label occurs once.\<close>

definition value_at :: "string list \<Rightarrow> cell list \<Rightarrow> string \<Rightarrow> cell" where
  "value_at ls cs col = (case cells_under col ls cs of c # rest \<Rightarrow> c | [] \<Rightarrow> NaN)"

text \<open>
  \<open>data[col]\<close>: a \<open>KeyError\<close> when no column has the label, a Series when one
  has, a sub-frame when several have.
\<close>

datatype selection = Series "cell list" | SubFrame

definition column_values :: "dataframe \<Rightarrow> string \<Rightarrow> cell list" where
  "column_values data col = map (\<lambda>r. value_at (labels data) (snd r) col) (rows data)"

definition getitem :: "dataframe \<Rightarrow> string \<Rightarrow> py_exn + selection" where
  "getitem data col =
     (if col \<notin> set (labels data) then Inl (KeyError col)
      else if count_list (labels data) col = 1 then Inr (Series (column_values data col))
      else Inr SubFrame)"

subsection \<open>Page elements\<close>

datatype metric_label = LastPrice | Change | PeriodHigh | PeriodLow

text \<open>The text of a metric: a formatted number or a literal string.\<close>

datatype shown = Amount float64 | Literal string

datatype element =
    St_warning string
  | St_error string
  | St_info string
  | St_subheader string
  | St_markdown string
  | St_metric metric_label shown "shown option"
  | Candlestick "date list" "cell list" "cell list" "cell list" "cell list"
  | VolumeBars "date list" "cell list"
  | St_dataframe "string list" "row list"
  | St_download_button "string list" "row list"

subsection \<open>Fetching (lines 19--30)\<close>

text \<open>What the call of \<open>yf.download\<close> does: it raises, or returns a frame.\<close>

datatype provider_result = Raises py_exn | Returns provider_frame

text \<open>
  The result of a function of the script: the page elements it emitted, and
  either the exception that left it or the value it returned.
\<close>

definition get_stock_data ::
  "string \<Rightarrow> provider_result \<Rightarrow> element list \<times> (py_exn + provider_frame option)" where
  "get_stock_data ticker_symbol download =
     (case download of
        Returns stock_data \<Rightarrow>
          if provider_empty stock_data
          then ([St_warning (''No data found for '' @ ticker_symbol @
                   ''. It might be delisted or an incorrect ticker.'')], Inr None)
          else ([], Inr (Some stock_data))
      | Raises e \<Rightarrow>
          if is_Exception e
          then ([St_error (''Error fetching data for '' @ ticker_symbol @ '': '' @ str_of e)],
                Inr None)
          else ([], Inl e))"

subsection \<open>Cleaning (lines 97--107)\<close>

text \<open>
  Lines 97--98: multi-level labels are replaced by their first level
  (\<open>get_level_values(0)\<close>); a plain index is left as it is.
\<close>

definition flatten_columns :: "provider_frame \<Rightarrow> dataframe" where
  "flatten_columns data =
     (case raw_columns data of
        MultiIndex ts \<Rightarrow> \<lparr>labels = map fst ts, rows = raw_rows data\<rparr>
      | Index ls \<Rightarrow> \<lparr>labels = ls, rows = raw_rows data\<rparr>)"

definition numeric_cols :: "string list" where
  "numeric_cols = [''Open'', ''High'', ''Low'', ''Close'', ''Volume'']"

text \<open>
  The loop of lines 102--104.  \<open>data[col]\<close> of a duplicated label is a frame,
  on which \<open>pd.to_numeric\<close> raises \<open>TypeError\<close>; nothing catches it.
\<close>

fun coerce_numeric :: "string list \<Rightarrow> dataframe \<Rightarrow> py_exn + dataframe" where
  "coerce_numeric [] data = Inr data"
| "coerce_numeric (col # cols) data =
     (if col \<in> set (labels data) then
        (if count_list (labels data) col = 1
         then coerce_numeric cols
                (data\<lparr>rows := map (\<lambda>r. (fst r, coerce_cells col (labels data) (snd r))) (rows data)\<rparr>)
         else Inl (TypeError ''arg must be a list, tuple, 1-d array, or Series''))
      else coerce_numeric cols data)"

definition ohlc :: "string list" where
  "ohlc = [''Open'', ''High'', ''Low'', ''Close'']"

text \<open>
  \<open>dropna(subset=..., how='all')\<close>: a \<open>KeyError\<close> when a label of the subset is
  not a column; otherwise the rows whose cells under the subset's labels are
  all null are removed.
\<close>

definition all_null :: "string list \<Rightarrow> string list \<Rightarrow> cell list \<Rightarrow> bool" where
  "all_null keys ls cs \<longleftrightarrow> list_all (\<lambda>col. list_all isna (cells_under col ls cs)) keys"

definition dropna_all :: "string list \<Rightarrow> dataframe \<Rightarrow> py_exn + dataframe" where
  "dropna_all keys data =
     (case filter (\<lambda>col. col \<notin> set (labels data)) keys of
        missing # others \<Rightarrow> Inl (KeyError missing)
      | [] \<Rightarrow> Inr (data\<lparr>rows := filter (\<lambda>r. \<not> all_null keys (labels data) (snd r)) (rows data)\<rparr>))"

definition data_cleaning :: "provider_frame \<Rightarrow> py_exn + dataframe" where
  "data_cleaning data =
     (case coerce_numeric numeric_cols (flatten_columns data) of
        Inl e \<Rightarrow> Inl e
      | Inr coerced \<Rightarrow> dropna_all ohlc coerced)"

subsection \<open>Key metrics (lines 114--129)\<close>

text \<open>\<open>Series.iloc[i]\<close>: a negative position counts from the end.\<close>

definition iloc :: "cell list \<Rightarrow> int \<Rightarrow> py_exn + cell" where
  "iloc s i =
     (if - int (length s) \<le> i \<and> i < int (length s)
      then Inr (s ! nat (if i < 0 then i + int (length s) else i))
      else Inl (IndexError ''single positional indexer is out-of-bounds''))"

text \<open>
  \<open>data[col]\<close> where the script goes on as with a Series.  In a cleaned frame
  none of the five labels is duplicated; with a sub-frame, formatting what the
  script reads from it raises \<open>TypeError\<close>.
\<close>

definition column :: "dataframe \<Rightarrow> string \<Rightarrow> py_exn + cell list" where
  "column data col =
     (case getitem data col of
        Inl e \<Rightarrow> Inl e
      | Inr (Series s) \<Rightarrow> Inr s
      | Inr SubFrame \<Rightarrow> Inl (TypeError ''unsupported format string passed to Series.__format__''))"

text \<open>
  The format \<open>:,.2f\<close> applied to a cell: text raises \<open>ValueError\<close>, \<open>None\<close>
  raises \<open>TypeError\<close>.
\<close>

fun format_2f :: "cell \<Rightarrow> py_exn + float64" where
  "format_2f (Num r) = Inr (Finite r)"
| "format_2f NaN = Inr NotANumber"
| "format_2f NoneObject = Inl (TypeError ''unsupported format string passed to NoneType.__format__'')"
| "format_2f c = Inl (ValueError ''Unknown format code f for object of type str'')"

text \<open>A cell as an operand of arithmetic: text and \<open>None\<close> raise \<open>TypeError\<close>.\<close>

fun operand :: "cell \<Rightarrow> py_exn + float64" where
  "operand (Num r) = Inr (Finite r)"
| "operand NaN = Inr NotANumber"
| "operand c = Inl (TypeError ''unsupported operand type(s)'')"

text \<open>The float that a numeric cell holds.\<close>

fun float_of :: "cell \<Rightarrow> float64" where
  "float_of (Num r) = Finite r"
| "float_of c = NotANumber"

fun numbers :: "cell list \<Rightarrow> real list" where
  "numbers [] = []"
| "numbers (Num r # cs) = r # numbers cs"
| "numbers (c # cs) = numbers cs"

text \<open>
  \<open>Series.max()\<close> and \<open>Series.min()\<close>, formatted with \<open>:,.2f\<close> (lines
  126--127).  Nulls are skipped; with no number left the result is NaN.  Text
  in the column raises: \<open>TypeError\<close> when it is compared with a float,
  \<open>ValueError\<close> at the formatting when the column holds nothing but text.
\<close>

definition text_in_series :: "cell list \<Rightarrow> py_exn" where
  "text_in_series s =
     (if list_all is_text s then ValueError ''Unknown format code f for object of type str''
      else TypeError ''not supported between instances of str and float'')"

definition series_max :: "cell list \<Rightarrow> py_exn + float64" where
  "series_max s =
     (if list_ex is_text s then Inl (text_in_series s)
      else case numbers s of [] \<Rightarrow> Inr NotANumber | r # rs \<Rightarrow> Inr (Finite (fold max rs r)))"

definition series_min :: "cell list \<Rightarrow> py_exn + float64" where
  "series_min s =
     (if list_ex is_text s then Inl (text_in_series s)
      else case numbers s of [] \<Rightarrow> Inr NotANumber | r # rs \<Rightarrow> Inr (Finite (fold min rs r)))"

text \<open>Lines 118--124: the second metric, from the Close column.\<close>

definition change_metric :: "cell list \<Rightarrow> cell \<Rightarrow> py_exn + element" where
  "change_metric close latest_price =
     (if length close > 1 then
        (case iloc close (- 2) of
           Inl e \<Rightarrow> Inl e
         | Inr prev_price \<Rightarrow>
             (case operand latest_price of
                Inl e \<Rightarrow> Inl e
              | Inr latest \<Rightarrow>
                  (case operand prev_price of
                     Inl e \<Rightarrow> Inl e
                   | Inr prev \<Rightarrow>
                       (let price_change = np_sub latest prev;
                            percent_change = np_mul (np_div price_change prev) (Finite 100)
                        in Inr (St_metric Change (Amount price_change)
                                  (Some (Amount percent_change)))))))
      else Inr (St_metric Change (Literal ''N/A'') (Some (Literal ''N/A''))))"

text \<open>Line 126 and line 127.\<close>

definition high_metric :: "dataframe \<Rightarrow> py_exn + element" where
  "high_metric data =
     (case column data ''High'' of
        Inl e \<Rightarrow> Inl e
      | Inr high \<Rightarrow>
          (case series_max high of
             Inl e \<Rightarrow> Inl e
           | Inr m \<Rightarrow> Inr (St_metric PeriodHigh (Amount m) None)))"

definition low_metric :: "dataframe \<Rightarrow> py_exn + element" where
  "low_metric data =
     (case column data ''Low'' of
        Inl e \<Rightarrow> Inl e
      | Inr low \<Rightarrow>
          (case series_min low of
             Inl e \<Rightarrow> Inl e
           | Inr m \<Rightarrow> Inr (St_metric PeriodLow (Amount m) None)))"

text \<open>
  The clause \<open>except (IndexError, TypeError, ValueError)\<close> of line 128, entered
  with the metrics already on the page: any other exception leaves the block.
\<close>

fun metrics_except :: "element list \<Rightarrow> py_exn \<Rightarrow> element list \<times> py_exn option" where
  "metrics_except page (IndexError m) =
     (page @ [St_error ''Not enough data to calculate metrics.''], None)"
| "metrics_except page (TypeError m) =
     (page @ [St_error ''Not enough data to calculate metrics.''], None)"
| "metrics_except page (ValueError m) =
     (page @ [St_error ''Not enough data to calculate metrics.''], None)"
| "metrics_except page e = (page, Some e)"

definition key_metrics :: "dataframe \<Rightarrow> element list \<times> py_exn option" where
  "key_metrics data =
     (case column data ''Close'' of
        Inl e \<Rightarrow> metrics_except [] e
      | Inr close \<Rightarrow>
     (case iloc close (- 1) of
        Inl e \<Rightarrow> metrics_except [] e
      | Inr latest_price \<Rightarrow>
     (case format_2f latest_price of
        Inl e \<Rightarrow> metrics_except [] e
      | Inr price \<Rightarrow>
     (case change_metric close latest_price of
        Inl e \<Rightarrow> metrics_except [St_metric LastPrice (Amount price) None] e
      | Inr col2 \<Rightarrow>
     (case high_metric data of
        Inl e \<Rightarrow> metrics_except [St_metric LastPrice (Amount price) None, col2] e
      | Inr col3 \<Rightarrow>
     (case low_metric data of
        Inl e \<Rightarrow> metrics_except [St_metric LastPrice (Amount price) None, col2, col3] e
      | Inr col4 \<Rightarrow>
          ([St_metric LastPrice (Amount price) None, col2, col3, col4], None)))))))"

subsection \<open>Charts and table (lines 133--189)\<close>

text \<open>
  \<open>sort_index(ascending=False)\<close>.  pandas reverses the index, sorts it
  ascending and reverses the outcome; the sort is taken to be stable.
\<close>

definition sort_index_descending :: "row list \<Rightarrow> row list" where
  "sort_index_descending rs = rev (sort_key fst (rev rs))"

text \<open>
  Lines 173--180: \<open>st.dataframe\<close> of the sorted frame with the format of the
  six columns.  Rendering applies the format strings to every cell of the
  columns of the dictionary that the frame has (a key that is no column is
  ignored): text raises \<open>ValueError\<close>, \<open>None\<close> raises \<open>TypeError\<close>, a float
  (NaN too) is formatted.  The frame is then serialised, which raises
  \<open>ValueError\<close> when a column label is duplicated.  Nothing catches these.
\<close>

definition format_keys :: "string list" where
  "format_keys = [''Open'', ''High'', ''Low'', ''Close'', ''Adj Close'', ''Volume'']"

fun str_format :: "cell \<Rightarrow> py_exn option" where
  "str_format (Num r) = None"
| "str_format NaN = None"
| "str_format NoneObject =
     Some (TypeError ''unsupported format string passed to NoneType.__format__'')"
| "str_format c = Some (ValueError ''Unknown format code f for object of type str'')"

definition formatted_cells :: "string list \<Rightarrow> row list \<Rightarrow> cell list" where
  "formatted_cells ls rs =
     concat (map (\<lambda>col. concat (map (\<lambda>r. cells_under col ls (snd r)) rs)) format_keys)"

definition st_dataframe_styled :: "string list \<Rightarrow> row list \<Rightarrow> py_exn + element" where
  "st_dataframe_styled ls rs =
     (case List.map_filter str_format (formatted_cells ls rs) of
        e # others \<Rightarrow> Inl e
      | [] \<Rightarrow>
          if distinct ls then Inr (St_dataframe ls rs)
          else Inl (ValueError ''Duplicate column names found''))"

text \<open>
  The rest of the page, after the elements \<open>page\<close>.  A missing column raises
  \<open>KeyError\<close>, which nothing catches: the script stops there.
\<close>

definition charts_and_table :: "dataframe \<Rightarrow> element list \<Rightarrow> element list \<times> py_exn option" where
  "charts_and_table data page =
     (let page1 = page @ [St_markdown ''<hr>'', St_subheader ''Price Action: Candlestick Chart'']
      in
     (case column data ''Open'' of Inl e \<Rightarrow> (page1, Some e) | Inr opens \<Rightarrow>
     (case column data ''High'' of Inl e \<Rightarrow> (page1, Some e) | Inr highs \<Rightarrow>
     (case column data ''Low'' of Inl e \<Rightarrow> (page1, Some e) | Inr lows \<Rightarrow>
     (case column data ''Close'' of Inl e \<Rightarrow> (page1, Some e) | Inr closes \<Rightarrow>
     (let page2 = page1 @ [Candlestick (map fst (rows data)) opens highs lows closes,
                           St_subheader ''Trading Volume Analysis'']
      in
     (case column data ''Volume'' of Inl e \<Rightarrow> (page2, Some e) | Inr volumes \<Rightarrow>
     (let page3 = page2 @ [VolumeBars (map fst (rows data)) volumes,
                           St_subheader ''Historical Data'']
      in
     (case st_dataframe_styled (labels data) (sort_index_descending (rows data)) of
        Inl e \<Rightarrow> (page3, Some e)
      | Inr table \<Rightarrow>
          (page3 @ [table, St_download_button (labels data) (rows data)], None))))))))))"

text \<open>Lines 109--191: the page for the cleaned frame.\<close>

definition render_cleaned :: "dataframe \<Rightarrow> element list \<times> py_exn option" where
  "render_cleaned data =
     (if \<not> df_empty data then
        (case key_metrics data of
           (metrics, Some e) \<Rightarrow> (St_subheader ''Key Performance Metrics'' # metrics, Some e)
         | (metrics, None) \<Rightarrow>
             charts_and_table data (St_subheader ''Key Performance Metrics'' # metrics))
      else ([St_error ''No valid data found after cleaning. Please check the ticker or date range.''],
            None))"

text \<open>Lines 94--194: what the caller does with the value of \<open>get_stock_data\<close>.\<close>

definition render_fetched :: "provider_frame option \<Rightarrow> element list \<times> py_exn option" where
  "render_fetched data =
     (if data \<noteq> None \<and> \<not> provider_empty (the data) then
        (case data_cleaning (the data) of
           Inl e \<Rightarrow> ([], Some e)
         | Inr cleaned \<Rightarrow> render_cleaned cleaned)
      else ([St_error ''Could not retrieve data. Please confirm the ticker symbol and selected date range.''],
            None))"

text \<open>
  Lines 90--197.  The title and the heading of lines 87--88, the spinner and
  the sidebar are left out.
\<close>

definition main_dashboard ::
  "bool \<Rightarrow> string \<Rightarrow> provider_result \<Rightarrow> element list \<times> py_exn option" where
  "main_dashboard analyze_button ticker_input download =
     (if analyze_button \<and> ticker_input \<noteq> [] then
        (case get_stock_data ticker_input download of
           (page, Inl e) \<Rightarrow> (page, Some e)
         | (page, Inr data) \<Rightarrow>
             (case render_fetched data of (rest, raised) \<Rightarrow> (page @ rest, raised)))
      else ([St_info (''Enter a stock ticker and click '' @ [CHR 0x27] @ ''Analyze Stock'' @
                 [CHR 0x27] @ '' to see the dashboard.'')],
            None))"

text \<open>What the page shows: the rows of its tables, and whether it has a metric,
  a chart or a table at all.\<close>

fun table_rows :: "element list \<Rightarrow> row list" where
  "table_rows [] = []"
| "table_rows (St_dataframe ls rs # page) = rs @ table_rows page"
| "table_rows (x # page) = table_rows page"

fun is_output :: "element \<Rightarrow> bool" where
  "is_output (St_metric l v d) = True"
| "is_output (Candlestick x a b c d) = True"
| "is_output (VolumeBars x v) = True"
| "is_output (St_dataframe ls rs) = True"
| "is_output (St_download_button ls rs) = True"
| "is_output x = False"

subsection \<open>News scraper (lines 32--58)\<close>

text \<open>
  A Python \<open>str\<close> of the page is the list of its Unicode code points;
  \<open>ascii\<close> gives the code points of a literal of the script.  Tag names,
  class tokens and attribute names are only compared with such literals and
  are kept as ASCII strings.
\<close>

type_synonym pystr = "nat list"

definition ascii :: "string \<Rightarrow> pystr" where
  "ascii s = map of_char s"

text \<open>
  The parsed page.  A tag has a name, the tokens of its \<open>class\<close> attribute,
  its other attributes and its children.  A \<open>Comment\<close> stands for any string
  that \<open>get_text\<close> leaves out.
\<close>

datatype node =
    Tag string "string list" "(string \<times> pystr) list" "node list"
  | NavigableString pystr
  | Comment pystr

fun descendants :: "node \<Rightarrow> node list" where
  "descendants (Tag name classes attrs children) =
     concat (map (\<lambda>c. c # descendants c) children)"
| "descendants (NavigableString s) = []"
| "descendants (Comment s) = []"

text \<open>The nodes of the page in document order.\<close>

definition soup_descendants :: "node list \<Rightarrow> node list" where
  "soup_descendants soup = concat (map (\<lambda>c. c # descendants c) soup)"

fun is_tag :: "string \<Rightarrow> node \<Rightarrow> bool" where
  "is_tag name (Tag n classes attrs children) = (n = name)"
| "is_tag name x = False"

fun has_class :: "string \<Rightarrow> node \<Rightarrow> bool" where
  "has_class c (Tag n classes attrs children) = (c \<in> set classes)"
| "has_class c x = False"

fun attrs_of :: "node \<Rightarrow> (string \<times> pystr) list" where
  "attrs_of (Tag n classes attrs children) = attrs"
| "attrs_of x = []"

text \<open>
  \<open>soup.find_all(name, class_=..., limit=...)\<close>: the tags of that name and
  class in document order, nested ones included; with a limit, the search stops
  after that many.
\<close>

definition find_all :: "string \<Rightarrow> string \<Rightarrow> nat option \<Rightarrow> node list \<Rightarrow> node list" where
  "find_all name cls limit soup =
     (case limit of
        None \<Rightarrow> filter (\<lambda>n. is_tag name n \<and> has_class cls n) (soup_descendants soup)
      | Some k \<Rightarrow> take k (filter (\<lambda>n. is_tag name n \<and> has_class cls n) (soup_descendants soup)))"

text \<open>\<open>story.find(name)\<close>: the first descendant tag of that name, or None.\<close>

definition find_tag :: "string \<Rightarrow> node \<Rightarrow> node option" where
  "find_tag name story = List.find (is_tag name) (descendants story)"

text \<open>
  \<open>str.isspace\<close> on a code point: the whitespace of Unicode as Python has it
  (U+0009--U+000D, U+001C--U+0020, U+0085, U+00A0, U+1680, U+2000--U+200A,
  U+2028, U+2029, U+202F, U+205F, U+3000); and \<open>str.strip()\<close>.
\<close>

definition py_isspace :: "nat \<Rightarrow> bool" where
  "py_isspace c \<longleftrightarrow>
     (9 \<le> c \<and> c \<le> 13) \<or> (28 \<le> c \<and> c \<le> 32) \<or> c = 133 \<or> c = 160 \<or> c = 5760 \<or>
     (8192 \<le> c \<and> c \<le> 8202) \<or> c = 8232 \<or> c = 8233 \<or> c = 8239 \<or> c = 8287 \<or> c = 12288"

definition strip :: "pystr \<Rightarrow> pystr" where
  "strip s = rev (dropWhile py_isspace (rev (dropWhile py_isspace s)))"

fun text_of :: "node \<Rightarrow> pystr list" where
  "text_of (NavigableString s) = [s]"
| "text_of x = []"

text \<open>\<open>tag.get_text(strip=True)\<close>: the stripped, non-empty strings inside
  the tag, joined.\<close>

definition get_text_strip :: "node \<Rightarrow> pystr" where
  "get_text_strip tag =
     concat (filter (\<lambda>s. s \<noteq> []) (map strip (concat (map text_of (descendants tag)))))"

record news_item =
  headline :: pystr
  link :: pystr

text \<open>The body of the loop (lines 45--51): the item a story adds, if any.\<close>

definition story_item :: "node \<Rightarrow> news_item option" where
  "story_item story =
     (case find_tag ''h3'' story of
        None \<Rightarrow> None
      | Some headline_tag \<Rightarrow>
          (case find_tag ''a'' story of
             None \<Rightarrow> None
           | Some link_tag \<Rightarrow>
               (case map_of (attrs_of link_tag) ''href'' of
                  None \<Rightarrow> None
                | Some href \<Rightarrow>
                    Some \<lparr>headline = get_text_strip headline_tag,
                          link = ascii ''https://economictimes.indiatimes.com'' @ href\<rparr>)))"

fun news_loop :: "node list \<Rightarrow> news_item list \<Rightarrow> news_item list" where
  "news_loop [] news_list = news_list"
| "news_loop (story # stories) news_list =
     (case story_item story of
        Some item \<Rightarrow> news_loop stories (news_list @ [item])
      | None \<Rightarrow> news_loop stories news_list)"

text \<open>
  The network: what \<open>requests.get\<close> does at the n-th request for a URL.  It
  raises, or it returns a response with a status code and a body; the body is
  given by what \<open>BeautifulSoup(response.content, 'html.parser')\<close> makes of it.
\<close>

datatype parse_result = ParseRaises py_exn | Soup "node list"

datatype http_result = GetRaises py_exn | Response nat parse_result

type_synonym network = "string \<Rightarrow> nat \<Rightarrow> http_result"

text \<open>Lines 37--52, the body of the \<open>try\<close>.\<close>

fun scrape_try :: "http_result \<Rightarrow> py_exn + news_item list" where
  "scrape_try (GetRaises e) = Inl e"
| "scrape_try (Response status_code body) =
     (if 400 \<le> status_code \<and> status_code < 600 then Inl (RequestException ''HTTPError'')
      else case body of
             ParseRaises e \<Rightarrow> Inl e
           | Soup soup \<Rightarrow> Inr (news_loop (find_all ''div'' ''eachStory'' (Some 10) soup) []))"

text \<open>
  The scraper, with the number of requests sent so far as its state: it
  returns the page elements it emitted, its value or the exception that left
  it, and the new number of requests.
\<close>

definition scrape_market_news ::
  "network \<Rightarrow> string \<Rightarrow> nat \<Rightarrow> (element list \<times> (py_exn + news_item list)) \<times> nat" where
  "scrape_market_news net url sent =
     ((case scrape_try (net url sent) of
         Inr news_list \<Rightarrow> ([], Inr news_list)
       | Inl e \<Rightarrow>
           if is_RequestException e
           then ([St_error (''Failed to retrieve news. Error: '' @ str_of e)], Inr [])
           else if is_Exception e
           then ([St_error (''An error occurred during news scraping: '' @ str_of e)], Inr [])
           else ([], Inl e)),
      Suc sent)"

section \<open>Sample inputs\<close>

definition no_rows_frame :: provider_frame where
  "no_rows_frame =
     \<lparr>raw_columns = Index [''Open'', ''High'', ''Low'', ''Close'', ''Volume''], raw_rows = []\<rparr>"

definition one_day_frame :: provider_frame where
  "one_day_frame =
     \<lparr>raw_columns = Index [''Open'', ''High'', ''Low'', ''Close'', ''Volume''],
      raw_rows = [(1, [Num 99, Num 110, Num 90, Num 100, Num 1000])]\<rparr>"

definition story_block :: "string \<Rightarrow> node" where
  "story_block p =
     Tag ''div'' [''eachStory''] []
       [Tag ''h3'' [] []
          [Tag ''a'' [] [(''href'', ascii (''/news/'' @ p))] [NavigableString (ascii ('' Story '' @ p))]],
        Tag ''p'' [] [] [NavigableString (ascii ''summary'')]]"

definition fifteen_stories :: "node list" where
  "fifteen_stories =
     [Tag ''div'' [''tabdata''] []
        (map story_block [''a'', ''b'', ''c'', ''d'', ''e'', ''f'', ''g'', ''h'', ''i'', ''j'',
                          ''k'', ''l'', ''m'', ''n'', ''o''])]"

definition static_site :: "node list \<Rightarrow> network" where
  "static_site soup = (\<lambda>url n. Response 200 (Soup soup))"

definition news_url :: string where
  "news_url = ''https://economictimes.indiatimes.com/markets/stocks/news''"

definition unreachable_site :: network where
  "unreachable_site = (\<lambda>url n. GetRaises (RequestException ''Connection refused''))"

definition failing_site :: network where
  "failing_site = (\<lambda>url n. Response 503 (Soup []))"

definition unparsable_site :: network where
  "unparsable_site = (\<lambda>url n. Response 200 (ParseRaises (OtherException ''bad markup'')))"






definition all_null_frame :: provider_frame where
  "all_null_frame =
     \<lparr>raw_columns = Index [''Open'', ''High'', ''Low'', ''Close'', ''Volume''],
      raw_rows = [(1, [NaN, NaN, NaN, NaN, Num 5]),
                  (2, [NonNumeric ''-'', NaN, NaN, NaN, NaN])]\<rparr>"

definition ohlc_only_frame :: provider_frame where
  "ohlc_only_frame =
     \<lparr>raw_columns = Index [''Open'', ''High'', ''Low'', ''Close''],
      raw_rows = [(1, [Num 99, Num 110, Num 90, Num 100])]\<rparr>"

definition two_ticker_frame :: provider_frame where
  "two_ticker_frame =
     \<lparr>raw_columns = MultiIndex [(''Close'', [''ABC'']), (''Close'', [''XYZ'']),
                                 (''High'', [''ABC'']), (''High'', [''XYZ'']),
                                 (''Low'', [''ABC'']), (''Low'', [''XYZ'']),
                                 (''Open'', [''ABC'']), (''Open'', [''XYZ'']),
                                 (''Volume'', [''ABC'']), (''Volume'', [''XYZ''])],
      raw_rows = [(1, [Num 100, Num 7, Num 110, Num 8, Num 90, Num 6, Num 99, Num 7,
                       Num 1000, Num 50])]\<rparr>"

definition incomplete_first :: "node list" where
  "incomplete_first =
     Tag ''div'' [''eachStory''] [] [Tag ''h3'' [] [] [NavigableString (ascii ''No link here'')]]
       # fifteen_stories"

definition ohlc_only_cleaned :: dataframe where
  "ohlc_only_cleaned =
     \<lparr>labels = [''Open'', ''High'', ''Low'', ''Close''],
      rows = [(1, [Num 99, Num 110, Num 90, Num 100])]\<rparr>"

definition text_adj_close_frame :: provider_frame where
  "text_adj_close_frame =
     \<lparr>raw_columns = Index [''Open'', ''High'', ''Low'', ''Close'', ''Adj Close'', ''Volume''],
      raw_rows = [(1, [Num 99, Num 110, Num 90, Num 100, NonNumeric ''-'', Num 1000])]\<rparr>"

definition text_adj_close_cleaned :: dataframe where
  "text_adj_close_cleaned =
     \<lparr>labels = [''Open'', ''High'', ''Low'', ''Close'', ''Adj Close'', ''Volume''],
      rows = [(1, [Num 99, Num 110, Num 90, Num 100, NonNumeric ''-'', Num 1000])]\<rparr>"

definition repeated_label_frame :: provider_frame where
  "repeated_label_frame =
     \<lparr>raw_columns = Index [''Open'', ''High'', ''Low'', ''Close'', ''Volume'', ''Note'', ''Note''],
      raw_rows = [(1, [Num 99, Num 110, Num 90, Num 100, Num 1000, Num 1, Num 2])]\<rparr>"

definition repeated_label_cleaned :: dataframe where
  "repeated_label_cleaned =
     \<lparr>labels = [''Open'', ''High'', ''Low'', ''Close'', ''Volume'', ''Note'', ''Note''],
      rows = [(1, [Num 99, Num 110, Num 90, Num 100, Num 1000, Num 1, Num 2])]\<rparr>"

definition adjusted_frame :: provider_frame where
  "adjusted_frame =
     \<lparr>raw_columns = Index [''Open'', ''High'', ''Low'', ''Close'', ''Adj Close'', ''Volume''],
      raw_rows = [(1, [Num 99, Num 110, Num 90, Num 100, Num 98, Num 1000]),
                  (2, [NaN, NaN, NaN, NoneObject, Num 97, Num 0]),
                  (3, [Num 100, Num 120, Num 99, Num 105, NaN, NumericText 2000])]\<rparr>"

definition adjusted_cleaned :: dataframe where
  "adjusted_cleaned =
     \<lparr>labels = [''Open'', ''High'', ''Low'', ''Close'', ''Adj Close'', ''Volume''],
      rows = [(1, [Num 99, Num 110, Num 90, Num 100, Num 98, Num 1000]),
              (3, [Num 100, Num 120, Num 99, Num 105, NaN, Num 2000])]\<rparr>"

section \<open>Fetching\<close>

text \<open>
  C2.  When the provider raises an exception (any class derived from
  \<open>Exception\<close>), \<open>get_stock_data\<close> emits one error message and returns None:
  nothing propagates.  When the provider returns a frame with no rows, it
  emits one warning (no error) and returns None.  The caller treats an empty
  frame exactly as it treats None.
\<close>

theorem get_stock_data_failure_is_none:
  "(is_Exception e \<longrightarrow>
      get_stock_data ticker (Raises e) =
        ([St_error (''Error fetching data for '' @ ticker @ '': '' @ str_of e)], Inr None))
   \<and> (raw_rows d = [] \<longrightarrow>
      get_stock_data ticker (Returns d) =
        ([St_warning (''No data found for '' @ ticker @
            ''. It might be delisted or an incorrect ticker.'')], Inr None))
   \<and> (provider_empty d \<longrightarrow> render_fetched (Some d) = render_fetched None)"
  by (simp add: get_stock_data_def provider_empty_def render_fetched_def)

theorem get_stock_data_failure_is_none_witness:
  "is_Exception (OtherException ''timed out'')
   \<and> get_stock_data ''ABC'' (Raises (OtherException ''timed out'')) =
       ([St_error ''Error fetching data for ABC: timed out''], Inr None)
   \<and> raw_rows no_rows_frame = []
   \<and> get_stock_data ''ABC'' (Returns no_rows_frame) =
       ([St_warning ''No data found for ABC. It might be delisted or an incorrect ticker.''],
        Inr None)
   \<and> provider_empty no_rows_frame
   \<and> render_fetched (Some no_rows_frame) = render_fetched None"
  using get_stock_data_failure_is_none [of "OtherException ''timed out''" "''ABC''" no_rows_frame]
  by (simp add: no_rows_frame_def provider_empty_def)

text \<open>
  C10.  Whenever \<open>get_stock_data\<close> returns, its value is None exactly when the
  provider raised or returned an empty frame; any frame it returns is the
  provider's own and has at least one row.  So it never returns a frame with
  no rows.
\<close>

theorem get_stock_data_none_or_rows:
  "get_stock_data ticker download = (page, Inr r) \<Longrightarrow>
     (r = None \<longleftrightarrow> (\<exists>e. download = Raises e) \<or> (\<exists>d. download = Returns d \<and> provider_empty d))
     \<and> (\<forall>d. r = Some d \<longrightarrow> download = Returns d \<and> raw_rows d \<noteq> [] \<and> \<not> provider_empty d)"
  by (auto simp: get_stock_data_def provider_empty_def split: provider_result.splits if_splits)

theorem get_stock_data_none_or_rows_witness:
  "get_stock_data ''ABC'' (Returns one_day_frame) = ([], Inr (Some one_day_frame))
   \<and> raw_rows one_day_frame \<noteq> [] \<and> \<not> provider_empty one_day_frame"
  using get_stock_data_none_or_rows [of "''ABC''" "Returns one_day_frame" "[]" "Some one_day_frame"]
  by (simp add: get_stock_data_def provider_empty_def one_day_frame_def)

section \<open>News scraper\<close>

lemma news_loop_map_filter:
  "news_loop stories news_list = news_list @ List.map_filter story_item stories"
  by (induction stories arbitrary: news_list) (auto simp: map_filter_simps split: option.splits)











text \<open>
  The limit of ten bounds the stories found, before the incomplete ones are
  skipped: with one incomplete story in front of the fifteen complete ones,
  nine items are returned.
\<close>

lemma limit_counts_incomplete_stories:
  "length (find_all ''div'' ''eachStory'' None incomplete_first) = 16
   \<and> (\<exists>news_list. fst (scrape_market_news (static_site incomplete_first) news_url 0) = ([], Inr news_list)
        \<and> length news_list = 9)"
  by (simp add: scrape_market_news_def static_site_def incomplete_first_def fifteen_stories_def
      story_block_def find_all_def soup_descendants_def news_loop_map_filter map_filter_simps
      story_item_def find_tag_def)

text \<open>
  C5.  When \<open>requests.get\<close> raises, when the status is an error status, or
  when parsing raises (any class derived from \<open>Exception\<close>), the scraper emits
  one error message and returns the empty list: nothing propagates.  In every
  case it has sent exactly one request: there is no retry.
\<close>

theorem scrape_market_news_fails_closed:
  "(net url sent = GetRaises e \<and> is_Exception e \<longrightarrow>
      (\<exists>msg. scrape_market_news net url sent = (([St_error msg], Inr []), Suc sent)))
   \<and> (net url sent = Response status_code body \<and> 400 \<le> status_code \<and> status_code < 600 \<longrightarrow>
      scrape_market_news net url sent =
        (([St_error ''Failed to retrieve news. Error: HTTPError''], Inr []), Suc sent))
   \<and> (net url sent = Response status_code (ParseRaises e) \<and> is_Exception e \<longrightarrow>
      (\<exists>msg. scrape_market_news net url sent = (([St_error msg], Inr []), Suc sent)))
   \<and> snd (scrape_market_news net url sent) = Suc sent"
  by (simp add: scrape_market_news_def)

theorem scrape_market_news_fails_closed_witness:
  "(unreachable_site news_url 0 = GetRaises (RequestException ''Connection refused'')
      \<and> is_Exception (RequestException ''Connection refused'')
      \<and> scrape_market_news unreachable_site news_url 0 =
          (([St_error ''Failed to retrieve news. Error: Connection refused''], Inr []), 1))
   \<and> (failing_site news_url 0 = Response 503 (Soup []) \<and> 400 \<le> (503::nat) \<and> (503::nat) < 600
      \<and> scrape_market_news failing_site news_url 0 =
          (([St_error ''Failed to retrieve news. Error: HTTPError''], Inr []), 1))
   \<and> (unparsable_site news_url 0 = Response 200 (ParseRaises (OtherException ''bad markup''))
      \<and> is_Exception (OtherException ''bad markup'')
      \<and> scrape_market_news unparsable_site news_url 0 =
          (([St_error ''An error occurred during news scraping: bad markup''], Inr []), 1))"
  using scrape_market_news_fails_closed [of unreachable_site news_url 0 "RequestException ''Connection refused''" 503 "Soup []"]
    scrape_market_news_fails_closed [of failing_site news_url 0 "RequestException ''Connection refused''" 503 "Soup []"]
    scrape_market_news_fails_closed [of unparsable_site news_url 0 "OtherException ''bad markup''" 200 "Soup []"]
  by (simp add: unreachable_site_def failing_site_def unparsable_site_def scrape_market_news_def)






text \<open>
  A headline of no-break spaces (U+00A0) is stripped to the empty text, as
  \<open>str.strip()\<close> does.
\<close>

lemma get_text_strip_no_break_space:
  "get_text_strip (Tag ''h3'' [] [] [NavigableString [160, 160]]) = []"
  by (simp add: get_text_strip_def strip_def py_isspace_def)

section \<open>Cleaning\<close>

lemma cells_under_absent: "col \<notin> set ls \<Longrightarrow> cells_under col ls cs = []"
  by (induction col ls cs rule: cells_under.induct) auto

lemma coerce_cells_absent: "col \<notin> set ls \<Longrightarrow> coerce_cells col ls cs = cs"
  by (induction col ls cs rule: coerce_cells.induct) auto


lemma to_numeric_idem: "to_numeric (to_numeric c) = to_numeric c"
  by (cases c) simp_all

lemma cells_under_coerce_cells:
  "cells_under col ls (coerce_cells col' ls cs) =
     (if col = col' then map to_numeric (cells_under col ls cs) else cells_under col ls cs)"
  by (induction col' ls cs rule: coerce_cells.induct) auto

lemma length_cells_under: "length (cells_under col ls cs) \<le> count_list ls col"
  by (induction col ls cs rule: cells_under.induct) auto

lemma cells_under_fold:
  "cells_under col ls (fold (\<lambda>c. coerce_cells c ls) cols cs) =
     (if col \<in> set cols then map to_numeric (cells_under col ls cs) else cells_under col ls cs)"
  by (induction cols arbitrary: cs) (auto simp: cells_under_coerce_cells to_numeric_idem)


lemma coerce_numeric_Inr:
  "coerce_numeric cols d = Inr d' \<Longrightarrow>
     d' = d\<lparr>rows := map (\<lambda>r. (fst r, fold (\<lambda>c. coerce_cells c (labels d)) cols (snd r))) (rows d)\<rparr>
     \<and> (\<forall>col \<in> set cols. count_list (labels d) col \<le> 1)"
proof (induction cols arbitrary: d)
  case Nil
  then show ?case by (simp add: prod.case_eq_if)
next
  case (Cons col cols)
  show ?case
  proof (cases "col \<in> set (labels d)")
    case True
    with Cons.prems have one: "count_list (labels d) col = 1"
      by (auto split: if_splits)
    let ?d1 = "d\<lparr>rows := map (\<lambda>r. (fst r, coerce_cells col (labels d) (snd r))) (rows d)\<rparr>"
    from Cons.prems True one have "coerce_numeric cols ?d1 = Inr d'" by simp
    from Cons.IH [OF this] one show ?thesis by (simp add: comp_def)
  next
    case False
    with Cons.prems have "coerce_numeric cols d = Inr d'" by simp
    from Cons.IH [OF this] False show ?thesis
      by (simp add: coerce_cells_absent)
  qed
qed



lemma rows_flatten_columns: "rows (flatten_columns raw) = raw_rows raw"
  by (simp add: flatten_columns_def split: column_index.splits)

lemma dropna_all_Inr:
  "dropna_all keys d = Inr d' \<Longrightarrow>
     set keys \<subseteq> set (labels d) \<and>
     d' = d\<lparr>rows := filter (\<lambda>r. \<not> all_null keys (labels d) (snd r)) (rows d)\<rparr>"
  by (auto simp: dropna_all_def filter_empty_conv split: list.splits)



lemma data_cleaning_Inr:
  assumes "data_cleaning raw = Inr data"
  shows "labels data = labels (flatten_columns raw)"
    and "set ohlc \<subseteq> set (labels data)"
    and "\<forall>col \<in> set numeric_cols. count_list (labels data) col \<le> 1"
    and "rows data =
           filter (\<lambda>r. \<not> all_null ohlc (labels data) (snd r))
             (map (\<lambda>r. (fst r, fold (\<lambda>c. coerce_cells c (labels data)) numeric_cols (snd r)))
                (raw_rows raw))"
proof -
  from assms obtain coerced where
    c: "coerce_numeric numeric_cols (flatten_columns raw) = Inr coerced" and
    d: "dropna_all ohlc coerced = Inr data"
    by (auto simp: data_cleaning_def split: sum.splits)
  note c' = coerce_numeric_Inr [OF c] and d' = dropna_all_Inr [OF d]
  have l: "labels coerced = labels (flatten_columns raw)"
    using c' by simp
  show "labels data = labels (flatten_columns raw)" using d' l by simp
  then show "set ohlc \<subseteq> set (labels data)" using d' l by simp
  show "\<forall>col \<in> set numeric_cols. count_list (labels data) col \<le> 1"
    using c' d' l by simp
  show "rows data =
           filter (\<lambda>r. \<not> all_null ohlc (labels data) (snd r))
             (map (\<lambda>r. (fst r, fold (\<lambda>c. coerce_cells c (labels data)) numeric_cols (snd r)))
                (raw_rows raw))"
    using c' d' l by (simp add: rows_flatten_columns)
qed



lemma value_at_fold:
  "value_at ls (fold (\<lambda>c. coerce_cells c ls) cols cs) col =
     (if col \<in> set cols then to_numeric (value_at ls cs col) else value_at ls cs col)"
  by (simp add: value_at_def cells_under_fold split: list.splits)





lemma all_null_cleaning:
  "data_cleaning all_null_frame =
     Inr \<lparr>labels = [''Open'', ''High'', ''Low'', ''Close'', ''Volume''], rows = []\<rparr>"
  by (simp add: all_null_frame_def data_cleaning_def flatten_columns_def
      numeric_cols_def ohlc_def dropna_all_def all_null_def)


text \<open>
  A download of two tickers has every first-level label twice: after the
  flattening, \<open>data['Open']\<close> is a frame and \<open>pd.to_numeric\<close> raises.
\<close>

lemma two_tickers_raise:
  "data_cleaning two_ticker_frame = Inl (TypeError ''arg must be a list, tuple, 1-d array, or Series'')"
  by (simp add: two_ticker_frame_def data_cleaning_def flatten_columns_def numeric_cols_def)

section \<open>Metrics, charts and table\<close>

lemma is_float_to_numeric: "is_float (to_numeric c)"
  by (cases c) simp_all

lemma format_2f_numeric: "is_float c \<Longrightarrow> format_2f c = Inr (float_of c)"
  by (cases c) simp_all

lemma operand_numeric: "is_float c \<Longrightarrow> operand c = Inr (float_of c)"
  by (cases c) simp_all

lemma float_no_text: "list_all is_float s \<Longrightarrow> \<not> list_ex is_text s"
proof (induction s)
  case Nil
  then show ?case by simp
next
  case (Cons c s)
  then show ?case by (cases c) simp_all
qed

lemma iloc_last: "s \<noteq> [] \<Longrightarrow> iloc s (- 1) = Inr (s ! (length s - 1))"
proof -
  assume "s \<noteq> []"
  then have len: "1 \<le> length s" by (cases s) simp_all
  then have "nat (- 1 + int (length s)) = length s - 1" by linarith
  with len show ?thesis by (simp add: iloc_def)
qed

lemma iloc_before_last: "2 \<le> length s \<Longrightarrow> iloc s (- 2) = Inr (s ! (length s - 2))"
proof -
  assume len: "2 \<le> length s"
  then have "nat (- 2 + int (length s)) = length s - 2" by linarith
  with len show ?thesis by (simp add: iloc_def)
qed

lemma series_max_numeric:
  assumes "list_all is_float s"
  shows "series_max s = Inr (if numbers s = [] then NotANumber else Finite (Max (set (numbers s))))"
proof (cases "numbers s")
  case Nil
  with float_no_text [OF assms] show ?thesis by (simp add: series_max_def)
next
  case (Cons r rs)
  have "fold max rs r = Max (set (r # rs))" by (simp only: Max.set_eq_fold)
  with Cons float_no_text [OF assms] show ?thesis by (simp add: series_max_def)
qed

lemma series_min_numeric:
  assumes "list_all is_float s"
  shows "series_min s = Inr (if numbers s = [] then NotANumber else Finite (Min (set (numbers s))))"
proof (cases "numbers s")
  case Nil
  with float_no_text [OF assms] show ?thesis by (simp add: series_min_def)
next
  case (Cons r rs)
  have "fold min rs r = Min (set (r # rs))" by (simp only: Min.set_eq_fold)
  with Cons float_no_text [OF assms] show ?thesis by (simp add: series_min_def)
qed

lemma cleaned_numeric:
  assumes "data_cleaning raw = Inr data" and "col \<in> set numeric_cols"
  shows "list_all is_float (column_values data col)"
proof -
  have "is_float (value_at (labels data) (snd r) col)" if "r \<in> set (rows data)" for r
    using that assms(2) unfolding data_cleaning_Inr(4) [OF assms(1)]
    by (auto simp: value_at_fold is_float_to_numeric)
  then show ?thesis by (simp add: column_values_def list_all_iff)
qed

lemma cleaned_column:
  assumes "data_cleaning raw = Inr data" and "col \<in> set numeric_cols" and "col \<in> set (labels data)"
  shows "column data col = Inr (column_values data col)"
proof -
  have "count_list (labels data) col \<le> 1"
    using data_cleaning_Inr(3) [OF assms(1)] assms(2) by blast
  moreover have "count_list (labels data) col \<noteq> 0"
    using assms(3) by (simp add: count_list_0_iff)
  ultimately have "count_list (labels data) col = 1" by simp
  with assms(3) show ?thesis by (simp add: column_def getitem_def)
qed

lemma cleaned_ohlc_column:
  assumes "data_cleaning raw = Inr data" and "col \<in> set ohlc"
  shows "column data col = Inr (column_values data col)"
proof (rule cleaned_column [OF assms(1)])
  show "col \<in> set numeric_cols" using assms(2) by (auto simp: numeric_cols_def ohlc_def)
  show "col \<in> set (labels data)" using data_cleaning_Inr(2) [OF assms(1)] assms(2) by blast
qed

lemma key_metrics_cleaned:
  assumes ok: "data_cleaning raw = Inr data" and ne: "rows data \<noteq> []"
  shows "key_metrics data =
     ([St_metric LastPrice
         (Amount (float_of (column_values data ''Close'' ! (length (rows data) - 1)))) None,
       (if 1 < length (rows data)
        then St_metric Change
               (Amount (np_sub (float_of (column_values data ''Close'' ! (length (rows data) - 1)))
                               (float_of (column_values data ''Close'' ! (length (rows data) - 2)))))
               (Some (Amount (np_mul
                  (np_div (np_sub (float_of (column_values data ''Close'' ! (length (rows data) - 1)))
                                  (float_of (column_values data ''Close'' ! (length (rows data) - 2))))
                          (float_of (column_values data ''Close'' ! (length (rows data) - 2))))
                  (Finite 100))))
        else St_metric Change (Literal ''N/A'') (Some (Literal ''N/A''))),
       St_metric PeriodHigh
         (Amount (if numbers (column_values data ''High'') = [] then NotANumber
                  else Finite (Max (set (numbers (column_values data ''High'')))))) None,
       St_metric PeriodLow
         (Amount (if numbers (column_values data ''Low'') = [] then NotANumber
                  else Finite (Min (set (numbers (column_values data ''Low'')))))) None],
      None)"
proof -
  let ?close = "column_values data ''Close''"
  let ?n = "length (rows data)"
  have len: "length ?close = ?n" by (simp add: column_values_def)
  have close: "column data ''Close'' = Inr ?close"
    and high: "column data ''High'' = Inr (column_values data ''High'')"
    and low: "column data ''Low'' = Inr (column_values data ''Low'')"
    by (rule cleaned_ohlc_column [OF ok], simp add: ohlc_def)+
  have num: "list_all is_float ?close"
    "list_all is_float (column_values data ''High'')"
    "list_all is_float (column_values data ''Low'')"
    by (rule cleaned_numeric [OF ok], simp add: numeric_cols_def)+
  have cell: "is_float (?close ! i)" if "i < ?n" for i
    using num(1) that len by (simp add: list_all_length)
  have last: "iloc ?close (- 1) = Inr (?close ! (?n - 1))"
    using iloc_last [of ?close] ne len by (cases "rows data") (simp_all add: column_values_def)
  have c1: "format_2f (?close ! (?n - 1)) = Inr (float_of (?close ! (?n - 1)))"
    using ne by (intro format_2f_numeric cell) simp
  have c2: "change_metric ?close (?close ! (?n - 1)) =
      Inr (if 1 < ?n
        then St_metric Change
               (Amount (np_sub (float_of (?close ! (?n - 1))) (float_of (?close ! (?n - 2)))))
               (Some (Amount (np_mul
                  (np_div (np_sub (float_of (?close ! (?n - 1))) (float_of (?close ! (?n - 2))))
                          (float_of (?close ! (?n - 2))))
                  (Finite 100))))
        else St_metric Change (Literal ''N/A'') (Some (Literal ''N/A'')))"
  proof (cases "1 < ?n")
    case True
    then have "iloc ?close (- 2) = Inr (?close ! (?n - 2))"
      using iloc_before_last [of ?close] len by simp
    moreover have "operand (?close ! (?n - 1)) = Inr (float_of (?close ! (?n - 1)))"
      "operand (?close ! (?n - 2)) = Inr (float_of (?close ! (?n - 2)))"
      using True by (intro operand_numeric cell, simp)+
    ultimately show ?thesis using True len by (simp add: change_metric_def Let_def)
  next
    case False
    then show ?thesis using len by (simp add: change_metric_def)
  qed
  have c3: "high_metric data = Inr (St_metric PeriodHigh
         (Amount (if numbers (column_values data ''High'') = [] then NotANumber
                  else Finite (Max (set (numbers (column_values data ''High'')))))) None)"
    by (simp add: high_metric_def high series_max_numeric [OF num(2)])
  have c4: "low_metric data = Inr (St_metric PeriodLow
         (Amount (if numbers (column_values data ''Low'') = [] then NotANumber
                  else Finite (Min (set (numbers (column_values data ''Low'')))))) None)"
    by (simp add: low_metric_def low series_min_numeric [OF num(3)])
  show ?thesis
    by (simp only: key_metrics_def close last c1 c2 c3 c4 sum.case)
qed







lemma table_rows_append: "table_rows (xs @ ys) = table_rows xs @ table_rows ys"
  by (induction xs rule: table_rows.induct) simp_all

lemma mset_sort_index_descending: "mset (sort_index_descending rs) = mset rs"
  by (simp add: sort_index_descending_def)

lemma set_sort_index_descending: "set (sort_index_descending rs) = set rs"
  by (simp add: sort_index_descending_def)

lemma sorted_sort_index_descending:
  "sorted_wrt (\<lambda>r s. fst s \<le> fst r) (sort_index_descending rs)"
proof -
  have "sorted (map fst (sort_key fst (rev rs)))" by (rule sorted_sort_key)
  then have "sorted_wrt (\<lambda>r s. fst r \<le> fst s) (sort_key fst (rev rs))"
    by (simp add: sorted_wrt_map)
  then show ?thesis by (simp add: sort_index_descending_def sorted_wrt_rev)
qed

lemma str_format_float: "is_float c \<Longrightarrow> str_format c = None"
  by (cases c) simp_all

lemma map_filter_none: "\<forall>x \<in> set xs. f x = None \<Longrightarrow> List.map_filter f xs = []"
  by (induction xs) (simp_all add: map_filter_simps)

lemma cleaned_cells_float:
  assumes "data_cleaning raw = Inr data" and "col \<in> set numeric_cols" and "r \<in> set (rows data)"
  shows "list_all is_float (cells_under col (labels data) (snd r))"
  using assms(3,2) unfolding data_cleaning_Inr(4) [OF assms(1)]
  by (auto simp: cells_under_fold list_all_iff is_float_to_numeric)

lemma cells_under_value_at:
  assumes "count_list ls col \<le> 1" and "c \<in> set (cells_under col ls cs)"
  shows "c = value_at ls cs col"
proof -
  have short: "length (cells_under col ls cs) \<le> 1"
    using length_cells_under [of col ls cs] assms(1) by simp
  show ?thesis
  proof (cases "cells_under col ls cs")
    case Nil
    with assms(2) show ?thesis by simp
  next
    case (Cons d rest)
    with short have "rest = []" by simp
    with Cons assms(2) show ?thesis by (simp add: value_at_def)
  qed
qed

lemma count_list_distinct: "distinct ls \<Longrightarrow> count_list ls col \<le> 1"
  by (induction ls) auto

lemma st_dataframe_styled_cleaned:
  assumes ok: "data_cleaning raw = Inr data" and d: "distinct (labels data)"
    and adj: "list_all is_float (column_values data ''Adj Close'')"
    and sub: "set rs = set (rows data)"
  shows "st_dataframe_styled (labels data) rs = Inr (St_dataframe (labels data) rs)"
proof -
  have "is_float c" if "c \<in> set (formatted_cells (labels data) rs)" for c
  proof -
    from that obtain col r where col: "col \<in> set format_keys" and r: "r \<in> set (rows data)"
      and c: "c \<in> set (cells_under col (labels data) (snd r))"
      using sub by (auto simp: formatted_cells_def)
    show ?thesis
    proof (cases "col = ''Adj Close''")
      case True
      have "c = value_at (labels data) (snd r) ''Adj Close''"
        using cells_under_value_at [OF count_list_distinct [OF d]] c True by blast
      then show ?thesis using adj r by (auto simp: column_values_def list_all_iff)
    next
      case False
      with col have "col \<in> set numeric_cols" by (auto simp: format_keys_def numeric_cols_def)
      from cleaned_cells_float [OF ok this r] c show ?thesis by (simp add: list_all_iff)
    qed
  qed
  then have "List.map_filter str_format (formatted_cells (labels data) rs) = []"
    by (intro map_filter_none) (simp add: str_format_float)
  with d show ?thesis by (simp add: st_dataframe_styled_def)
qed

lemma render_cleaned_table:
  assumes ok: "data_cleaning raw = Inr data" and vol: "''Volume'' \<in> set (labels data)"
    and d: "distinct (labels data)"
    and adj: "list_all is_float (column_values data ''Adj Close'')"
    and ne: "rows data \<noteq> []"
  shows "\<exists>page. render_cleaned data = (page, None)
           \<and> table_rows page = sort_index_descending (rows data)"
proof -
  obtain metrics where m: "key_metrics data = (metrics, None)"
    and t: "table_rows metrics = []"
    using key_metrics_cleaned [OF ok ne] by simp
  have cols: "column data ''Open'' = Inr (column_values data ''Open'')"
    "column data ''High'' = Inr (column_values data ''High'')"
    "column data ''Low'' = Inr (column_values data ''Low'')"
    "column data ''Close'' = Inr (column_values data ''Close'')"
    by (rule cleaned_ohlc_column [OF ok], simp add: ohlc_def)+
  have volume: "column data ''Volume'' = Inr (column_values data ''Volume'')"
    by (rule cleaned_column [OF ok _ vol]) (simp add: numeric_cols_def)
  have table: "st_dataframe_styled (labels data) (sort_index_descending (rows data)) =
      Inr (St_dataframe (labels data) (sort_index_descending (rows data)))"
    by (rule st_dataframe_styled_cleaned [OF ok d adj]) (rule set_sort_index_descending)
  have "\<not> df_empty data" using ne vol by (auto simp: df_empty_def)
  then show ?thesis
    by (simp add: render_cleaned_def m charts_and_table_def cols volume table table_rows_append t)
qed

text \<open>
  C8, as the script has it.  For a cleaned frame that has a Volume column,
  distinct column labels and only floats in its Adj Close column (if it has
  one), the page is rendered without an exception and the rows of its table
  are the rows of the cleaned frame, each exactly once (same multiset, so the
  same count), in descending order of date.
\<close>

theorem table_shows_every_row_descending:
  assumes "data_cleaning raw = Inr data" and "''Volume'' \<in> set (labels data)"
    and "distinct (labels data)"
    and "list_all is_float (column_values data ''Adj Close'')"
  shows "\<exists>page. render_cleaned data = (page, None)
     \<and> length (table_rows page) = length (rows data)
     \<and> mset (table_rows page) = mset (rows data)
     \<and> sorted_wrt (\<lambda>r s. fst s \<le> fst r) (table_rows page)"
proof (cases "rows data = []")
  case True
  then show ?thesis by (simp add: render_cleaned_def df_empty_def)
next
  case False
  from render_cleaned_table [OF assms False] obtain page where
    p: "render_cleaned data = (page, None)" "table_rows page = sort_index_descending (rows data)"
    by blast
  have "length (table_rows page) = length (rows data)"
    using mset_sort_index_descending [of "rows data"] p(2) by (metis size_mset)
  with p show ?thesis
    by (auto simp: mset_sort_index_descending sorted_sort_index_descending)
qed

lemma adjusted_cleaning: "data_cleaning adjusted_frame = Inr adjusted_cleaned"
  by (simp add: adjusted_frame_def adjusted_cleaned_def data_cleaning_def flatten_columns_def
      numeric_cols_def ohlc_def dropna_all_def all_null_def)

theorem table_shows_every_row_descending_witness:
  "data_cleaning adjusted_frame = Inr adjusted_cleaned
   \<and> ''Volume'' \<in> set (labels adjusted_cleaned)
   \<and> distinct (labels adjusted_cleaned)
   \<and> list_all is_float (column_values adjusted_cleaned ''Adj Close'')
   \<and> length (rows adjusted_cleaned) = 2
   \<and> (\<exists>page. render_cleaned adjusted_cleaned = (page, None)
        \<and> length (table_rows page) = 2
        \<and> mset (table_rows page) = mset (rows adjusted_cleaned)
        \<and> sorted_wrt (\<lambda>r s. fst s \<le> fst r) (table_rows page))"
proof -
  have vol: "''Volume'' \<in> set (labels adjusted_cleaned)" by (simp add: adjusted_cleaned_def)
  have d: "distinct (labels adjusted_cleaned)" by (simp add: adjusted_cleaned_def)
  have adj: "list_all is_float (column_values adjusted_cleaned ''Adj Close'')"
    by (simp add: adjusted_cleaned_def column_values_def value_at_def)
  have len: "length (rows adjusted_cleaned) = 2" by (simp add: adjusted_cleaned_def)
  from table_shows_every_row_descending [OF adjusted_cleaning vol d adj] len adjusted_cleaning
    vol d adj
  show ?thesis by auto
qed

text \<open>
  C8 fails on cleaned frames of one row for which no table is rendered: a
  frame with no Volume column (line 159 raises \<open>KeyError\<close>), a frame with text
  in Adj Close, which the cleaning does not coerce (line 173 raises
  \<open>ValueError\<close>), and a frame with a repeated label (line 173 raises
  \<open>ValueError\<close>).
\<close>

theorem table_not_rendered_counterexample:
  "data_cleaning ohlc_only_frame = Inr ohlc_only_cleaned
   \<and> length (rows ohlc_only_cleaned) = 1
   \<and> snd (render_cleaned ohlc_only_cleaned) = Some (KeyError ''Volume'')
   \<and> table_rows (fst (render_cleaned ohlc_only_cleaned)) = []
   \<and> data_cleaning text_adj_close_frame = Inr text_adj_close_cleaned
   \<and> length (rows text_adj_close_cleaned) = 1
   \<and> snd (render_cleaned text_adj_close_cleaned) =
       Some (ValueError ''Unknown format code f for object of type str'')
   \<and> table_rows (fst (render_cleaned text_adj_close_cleaned)) = []
   \<and> data_cleaning repeated_label_frame = Inr repeated_label_cleaned
   \<and> length (rows repeated_label_cleaned) = 1
   \<and> snd (render_cleaned repeated_label_cleaned) = Some (ValueError ''Duplicate column names found'')
   \<and> table_rows (fst (render_cleaned repeated_label_cleaned)) = []"
proof -
  note cleaning = data_cleaning_def flatten_columns_def numeric_cols_def ohlc_def dropna_all_def
    all_null_def
  note rendering = render_cleaned_def df_empty_def key_metrics_def column_def getitem_def
    column_values_def value_at_def iloc_def change_metric_def high_metric_def low_metric_def
    series_max_def series_min_def charts_and_table_def st_dataframe_styled_def
    formatted_cells_def format_keys_def sort_index_descending_def map_filter_simps
  have a: "data_cleaning ohlc_only_frame = Inr ohlc_only_cleaned"
    by (simp add: ohlc_only_frame_def ohlc_only_cleaned_def cleaning)
  have b: "snd (render_cleaned ohlc_only_cleaned) = Some (KeyError ''Volume'')
      \<and> table_rows (fst (render_cleaned ohlc_only_cleaned)) = []"
    by (simp add: ohlc_only_cleaned_def rendering)
  have c: "data_cleaning text_adj_close_frame = Inr text_adj_close_cleaned"
    by (simp add: text_adj_close_frame_def text_adj_close_cleaned_def cleaning)
  have d: "snd (render_cleaned text_adj_close_cleaned) =
       Some (ValueError ''Unknown format code f for object of type str'')
      \<and> table_rows (fst (render_cleaned text_adj_close_cleaned)) = []"
    by (simp add: text_adj_close_cleaned_def rendering)
  have e: "data_cleaning repeated_label_frame = Inr repeated_label_cleaned"
    by (simp add: repeated_label_frame_def repeated_label_cleaned_def cleaning)
  have f: "snd (render_cleaned repeated_label_cleaned) = Some (ValueError ''Duplicate column names found'')
      \<and> table_rows (fst (render_cleaned repeated_label_cleaned)) = []"
    by (simp add: repeated_label_cleaned_def rendering)
  show ?thesis using a b c d e f
    by (simp add: ohlc_only_cleaned_def text_adj_close_cleaned_def repeated_label_cleaned_def)
qed

text \<open>
  C9.  When the provider's frame is not empty but no row is left after the
  cleaning, the page consists of the one error message of line 191: it has no
  metric, no chart and no table.
\<close>

theorem empty_after_cleaning_is_error:
  assumes "\<not> provider_empty raw" and "data_cleaning raw = Inr data" and "rows data = []"
    and "ticker_input \<noteq> []"
  shows "main_dashboard True ticker_input (Returns raw) =
       ([St_error ''No valid data found after cleaning. Please check the ticker or date range.''],
        None)
     \<and> \<not> list_ex is_output (fst (main_dashboard True ticker_input (Returns raw)))"
  using assms
  by (simp add: main_dashboard_def get_stock_data_def render_fetched_def render_cleaned_def
      df_empty_def)

theorem empty_after_cleaning_is_error_witness:
  "\<not> provider_empty all_null_frame
   \<and> data_cleaning all_null_frame =
       Inr \<lparr>labels = [''Open'', ''High'', ''Low'', ''Close'', ''Volume''], rows = []\<rparr>
   \<and> main_dashboard True ''ABC'' (Returns all_null_frame) =
       ([St_error ''No valid data found after cleaning. Please check the ticker or date range.''],
        None)"
proof -
  have h1: "\<not> provider_empty all_null_frame"
    by (simp add: provider_empty_def all_null_frame_def)
  have h3: "rows \<lparr>labels = [''Open'', ''High'', ''Low'', ''Close'', ''Volume''], rows = []\<rparr> = []"
    by simp
  have h4: "''ABC'' \<noteq> []" by simp
  from empty_after_cleaning_is_error [OF h1 all_null_cleaning h3 h4] h1 all_null_cleaning
  show ?thesis by simp
qed

end
